theory Spec2Isabelle
  imports Main "HOL-Library.Sublist"
begin

section \<open>JavaScript values and the network boundary\<close>

text \<open>
  The dashboard is written in JavaScript, so component state holds untyped values.
  \<open>jsval\<close> covers the values that can reach the code under study: \<open>undefined\<close>,
  \<open>null\<close>, booleans, numbers, strings, arrays and plain objects. A plain object is an
  association list of its own properties in insertion order (keys pairwise distinct,
  as \<open>JSON.parse\<close> and object literals produce them).
\<close>

datatype jsval =
    Undefined
  | Null
  | JBool bool
  | JNum int
  | JStr string
  | JArr "jsval list"
  | JObj "(string \<times> jsval) list"

type_synonym obj = "(string \<times> jsval) list"

text \<open>Property read \<open>o.k\<close> on a plain object: a missing key reads as \<open>undefined\<close>.\<close>

definition get_prop :: "obj \<Rightarrow> string \<Rightarrow> jsval" where
  "get_prop ob k = (case map_of ob k of None \<Rightarrow> Undefined | Some v \<Rightarrow> v)"

text \<open>Truthiness, as used by \<open>c ? a : b\<close>, \<open>a || b\<close> and \<open>a && b\<close>.\<close>

fun truthy :: "jsval \<Rightarrow> bool" where
  "truthy Undefined = False"
| "truthy Null = False"
| "truthy (JBool b) = b"
| "truthy (JNum n) = (n \<noteq> 0)"
| "truthy (JStr s) = (s \<noteq> [])"
| "truthy (JArr xs) = True"
| "truthy (JObj kvs) = True"

text \<open>
  What \<open>await fetch(url, {signal})\<close> can do: reject because the transport failed,
  reject because the abort signal fired first (the client-side deadline), or resolve
  with a response. A response carries its HTTP status and what \<open>await res.json()\<close>
  will do: reject with a syntax error on a body that is not JSON, or resolve with the
  parsed value. \<open>res.ok\<close> is the Fetch API's getter: true exactly for status 200..299.
\<close>

datatype json_result = SyntaxError | Parsed jsval

record response =
  status :: nat
  json :: json_result

definition ok :: "response \<Rightarrow> bool" where
  "ok res = (200 \<le> status res \<and> status res \<le> 299)"

datatype fetch_result = NetworkFailure | AbortError | Resolved response

text \<open>The exceptions that can be raised inside the two \<open>try\<close> blocks.\<close>

datatype exn =
    FetchTypeError
  | FetchAborted
  | ApiResponded nat
  | JsonSyntaxError
  | DestructureTypeError
  | StatusError nat

section \<open>Toast provider (use-toast.jsx)\<close>

text \<open>
  \<open>ToastProvider\<close> owns \<open>toasts\<close>, the ordered list of toast objects. Every call of
  \<open>toast\<close> also registers one timer with \<open>setTimeout(cb, 3000)\<close>; the callback
  closes over the id only, so a pending timer is the pair of its due time and that id.
  \<open>clock\<close> is the current time in milliseconds.
\<close>

record provider_state =
  toasts :: "obj list"
  timers :: "(nat \<times> string) list"
  clock :: nat

definition provider_init :: provider_state where
  "provider_init = \<lparr>toasts = [], timers = [], clock = 0\<rparr>"

text \<open>The timer callback's state update: \<open>prev.filter((t) => t.id !== id)\<close>.\<close>

definition remove_toast :: "string \<Rightarrow> obj list \<Rightarrow> obj list" where
  "remove_toast rid prev = filter (\<lambda>t. get_prop t ''id'' \<noteq> JStr rid) prev"

text \<open>
  \<open>toast({ title, description, variant = "default" })\<close>. The id comes from
  \<open>Math.random().toString(36).substring(2, 9)\<close>; the random draw is the argument
  \<open>rid\<close>. The default of \<open>variant\<close> applies when the caller's object has no such
  property (or has it \<open>undefined\<close>). The function body has no \<open>return\<close>, so the call
  evaluates to \<open>undefined\<close>; the first component of the result is that value.
\<close>

definition toast :: "string \<Rightarrow> obj \<Rightarrow> provider_state \<Rightarrow> jsval \<times> provider_state" where
  "toast rid args st =
    (let title = get_prop args ''title'';
         description = get_prop args ''description'';
         variant = (if get_prop args ''variant'' = Undefined then JStr ''default''
                    else get_prop args ''variant'');
         newToast = [(''id'', JStr rid), (''title'', title),
                     (''description'', description), (''variant'', variant)]
     in (Undefined,
         st\<lparr>toasts := toasts st @ [newToast],
            timers := timers st @ [(clock st + 3000, rid)]\<rparr>))"

text \<open>
  Time passes until \<open>t\<close>: every pending timer that is due by then runs its callback,
  in the order the timers were registered, and is gone afterwards; the others stay
  as they are.
\<close>

definition run_timers :: "nat \<Rightarrow> provider_state \<Rightarrow> provider_state" where
  "run_timers t st =
    st\<lparr>toasts := fold (\<lambda>(due, rid). remove_toast rid)
                      (filter (\<lambda>(due, rid). due \<le> t) (timers st)) (toasts st),
       timers := filter (\<lambda>(due, rid). \<not> due \<le> t) (timers st),
       clock := max (clock st) t\<rparr>"

text \<open>
  The toast container renders \<open>toasts.map(...)\<close>: one box per entry, in list order,
  with a red border exactly for the variant \<open>"destructive"\<close>.
\<close>

datatype severity = Normal | Alert

definition toast_severity :: "obj \<Rightarrow> severity" where
  "toast_severity t = (if get_prop t ''variant'' = JStr ''destructive'' then Alert else Normal)"

definition render_toasts :: "provider_state \<Rightarrow> (jsval \<times> jsval \<times> severity) list" where
  "render_toasts st =
    map (\<lambda>t. (get_prop t ''title'', get_prop t ''description'', toast_severity t)) (toasts st)"

section \<open>Health monitor (Layout.jsx)\<close>

record health_state =
  isBackendHealthy :: bool
  showHealthAlert :: bool

text \<open>\<open>useState(true)\<close> and \<open>useState(false)\<close>.\<close>

definition Layout_init :: health_state where
  "Layout_init = \<lparr>isBackendHealthy = True, showHealthAlert = False\<rparr>"

text \<open>
  \<open>import.meta.env.VITE_API_BASE_URL || "http://localhost:5000"\<close>: the environment
  entry is absent (\<open>None\<close>) or a string, and \<open>||\<close> falls through on a falsy left side.
\<close>

definition Layout_API_BASE_URL :: "string option \<Rightarrow> string" where
  "Layout_API_BASE_URL env =
    (case env of
       None \<Rightarrow> ''http://localhost:5000''
     | Some s \<Rightarrow> if truthy (JStr s) then s else ''http://localhost:5000'')"

definition health_url :: "string option \<Rightarrow> string" where
  "health_url env = Layout_API_BASE_URL env @ ''/health''"

text \<open>The body of the \<open>try\<close> block of \<open>checkHealth\<close>: an exception or the new state.\<close>

definition checkHealth_try :: "fetch_result \<Rightarrow> health_state \<Rightarrow> exn + health_state" where
  "checkHealth_try r st =
    (case r of
       NetworkFailure \<Rightarrow> Inl FetchTypeError
     | AbortError \<Rightarrow> Inl FetchAborted
     | Resolved res \<Rightarrow>
         if ok res then Inr (st\<lparr>isBackendHealthy := True, showHealthAlert := False\<rparr>)
         else Inl (StatusError (status res)))"

definition checkHealth :: "fetch_result \<Rightarrow> health_state \<Rightarrow> health_state" where
  "checkHealth r st =
    (case checkHealth_try r st of
       Inr st' \<Rightarrow> st'
     | Inl err \<Rightarrow> st\<lparr>isBackendHealthy := False, showHealthAlert := True\<rparr>)"

text \<open>
  The banner, and with it the dismiss button, is rendered under
  \<open>showHealthAlert && !isBackendHealthy\<close>. The button's handler is
  \<open>setShowHealthAlert(false)\<close>. The user's dismiss action is a click on that button
  when it is there, and nothing when it is not.
\<close>

definition banner_rendered :: "health_state \<Rightarrow> bool" where
  "banner_rendered st = (showHealthAlert st \<and> \<not> isBackendHealthy st)"

definition dismiss_onClick :: "health_state \<Rightarrow> health_state" where
  "dismiss_onClick st = st\<lparr>showHealthAlert := False\<rparr>"

definition dismiss :: "health_state \<Rightarrow> health_state" where
  "dismiss st = (if banner_rendered st then dismiss_onClick st else st)"

datatype health_event = Poll fetch_result | Dismiss

fun health_step :: "health_event \<Rightarrow> health_state \<Rightarrow> health_state" where
  "health_step (Poll r) st = checkHealth r st"
| "health_step Dismiss st = dismiss st"

definition health_run :: "health_event list \<Rightarrow> health_state" where
  "health_run evs = fold health_step evs Layout_init"

section \<open>Stock card (StockCard.jsx)\<close>

text \<open>
  \<open>getStatusDisplay\<close> picks what the card shows from its two props; the model keeps
  the \<open>text\<close> of the returned object. The comparisons are strict (\<open>===\<close>).
\<close>

definition getStatusDisplay :: "jsval \<Rightarrow> jsval \<Rightarrow> string" where
  "getStatusDisplay st_prop isChecking_prop =
    (if truthy isChecking_prop then ''Checking...''
     else if st_prop = Null then ''Not checked''
     else if st_prop = JBool True then ''Pattern detected''
     else if st_prop = JStr ''error'' then ''Check error''
     else ''No pattern detected'')"

text \<open>
  The footer button: \<open>Button\<close> forwards \<open>disabled\<close> and \<open>onClick\<close> unchanged to the
  DOM \<open>button\<close> element through \<open>{...props}\<close>.
\<close>

record button =
  variant :: string
  disabled :: jsval
  label :: string

definition StockCard_button :: "jsval \<Rightarrow> jsval \<Rightarrow> button" where
  "StockCard_button st_prop isChecking_prop =
    \<lparr>variant = (if st_prop = Null then ''default'' else ''outline''),
     disabled = isChecking_prop,
     label = (if truthy isChecking_prop then ''Checking...''
              else if st_prop = Null then ''Check Pattern'' else ''Check Again'')\<rparr>"

section \<open>Dashboard (Dashboard.jsx)\<close>

text \<open>
  The page keeps two objects keyed by symbol: \<open>stockResults\<close> (the last outcome,
  \<open>null\<close> before any check) and \<open>isChecking\<close> (initially the empty object, so a read
  gives \<open>undefined\<close>). Its toasts go to the provider above it.
\<close>

record dashboard_state =
  stockResults :: "string \<rightharpoonup> jsval"
  isChecking :: "string \<rightharpoonup> bool"
  provider :: provider_state

definition Dashboard_init :: dashboard_state where
  "Dashboard_init =
    \<lparr>stockResults = [''AAPL'' \<mapsto> Null, ''MSFT'' \<mapsto> Null, ''GOOGL'' \<mapsto> Null,
                     ''AMZN'' \<mapsto> Null, ''TSLA'' \<mapsto> Null, ''META'' \<mapsto> Null,
                     ''NVDA'' \<mapsto> Null],
     isChecking = Map.empty,
     provider = provider_init\<rparr>"

definition API_BASE_URL :: string where
  "API_BASE_URL = ''http://localhost:5000''"

text \<open>
  What \<open>checkPattern\<close> does to the outside, in program order: state updates
  (\<open>setIsChecking\<close>, \<open>setStockResults\<close>, both with updater functions that replace one
  key), the request, the log line and the toast.
\<close>

datatype effect =
    SetIsChecking string bool
  | Fetch string
  | ConsoleError
  | SetStockResults string jsval
  | Toast obj

text \<open>
  \<open>const { pattern_detected } = v\<close>: a type error on \<open>null\<close> and \<open>undefined\<close>, the
  property of a plain object, and \<open>undefined\<close> on every other value (no such property
  on a boolean, a number, a string or an array).
\<close>

fun destructure_pattern_detected :: "jsval \<Rightarrow> exn + jsval" where
  "destructure_pattern_detected Undefined = Inl DestructureTypeError"
| "destructure_pattern_detected Null = Inl DestructureTypeError"
| "destructure_pattern_detected (JObj kvs) = Inr (get_prop kvs ''pattern_detected'')"
| "destructure_pattern_detected v = Inr Undefined"

text \<open>Up to the first \<open>await\<close>: the marker is set, then the request goes out.\<close>

definition checkPattern_request :: "string \<Rightarrow> effect list" where
  "checkPattern_request symbol =
    [SetIsChecking symbol True,
     Fetch (API_BASE_URL @ ''/api/pattern?symbol='' @ symbol)]"

text \<open>
  The rest of the \<open>try\<close> block once the request has settled. Every statement that can
  throw comes before the first state update, so the block either throws with no effect
  or runs to its end.
\<close>

definition checkPattern_try :: "string \<Rightarrow> fetch_result \<Rightarrow> exn + effect list" where
  "checkPattern_try symbol r =
    (case r of
       NetworkFailure \<Rightarrow> Inl FetchTypeError
     | AbortError \<Rightarrow> Inl FetchAborted
     | Resolved res \<Rightarrow>
         if \<not> ok res then Inl (ApiResponded (status res))
         else (case json res of
                 SyntaxError \<Rightarrow> Inl JsonSyntaxError
               | Parsed v \<Rightarrow>
                   (case destructure_pattern_detected v of
                      Inl err \<Rightarrow> Inl err
                    | Inr pattern_detected \<Rightarrow>
                        Inr [SetStockResults symbol pattern_detected,
                             Toast [(''title'', JStr (if truthy pattern_detected
                                                      then ''Cup & Handle Pattern Detected''
                                                      else ''No Pattern Detected'')),
                                    (''description'',
                                       JStr (''Finished analyzing '' @ symbol @ ''.'')),
                                    (''variant'', JStr (if truthy pattern_detected
                                                        then ''default''
                                                        else ''destructive''))]])))"

definition checkPattern_catch :: "string \<Rightarrow> effect list" where
  "checkPattern_catch symbol =
    [ConsoleError,
     Toast [(''title'', JStr ''Error''),
            (''description'',
               JStr ''Could not reach the server or received an invalid response.''),
            (''variant'', JStr ''destructive'')],
     SetStockResults symbol Null]"

definition checkPattern_finally :: "string \<Rightarrow> effect list" where
  "checkPattern_finally symbol = [SetIsChecking symbol False]"

text \<open>
  After the request has settled: \<open>try\<close>, else \<open>catch\<close>, then \<open>finally\<close>. The first
  component is the exception that leaves the function (the rejection of the promise
  it returns), if any; the \<open>catch\<close> clause takes every exception of the \<open>try\<close> block.
\<close>

definition checkPattern_settle :: "string \<Rightarrow> fetch_result \<Rightarrow> exn option \<times> effect list" where
  "checkPattern_settle symbol r =
    (case checkPattern_try symbol r of
       Inr es \<Rightarrow> (None, es @ checkPattern_finally symbol)
     | Inl err \<Rightarrow> (None, checkPattern_catch symbol @ checkPattern_finally symbol))"

definition checkPattern :: "string \<Rightarrow> fetch_result \<Rightarrow> exn option \<times> effect list" where
  "checkPattern symbol r =
    (fst (checkPattern_settle symbol r),
     checkPattern_request symbol @ snd (checkPattern_settle symbol r))"

text \<open>
  Carrying the effects out on the page state. \<open>rid\<close> is the random id drawn by the
  one \<open>toast\<close> call a check makes.
\<close>

fun apply_effect :: "string \<Rightarrow> effect \<Rightarrow> dashboard_state \<Rightarrow> dashboard_state" where
  "apply_effect rid (SetIsChecking symbol b) st =
     st\<lparr>isChecking := (isChecking st)(symbol \<mapsto> b)\<rparr>"
| "apply_effect rid (Fetch url) st = st"
| "apply_effect rid ConsoleError st = st"
| "apply_effect rid (SetStockResults symbol v) st =
     st\<lparr>stockResults := (stockResults st)(symbol \<mapsto> v)\<rparr>"
| "apply_effect rid (Toast args) st =
     st\<lparr>provider := snd (toast rid args (provider st))\<rparr>"

definition run :: "string \<Rightarrow> effect list \<Rightarrow> dashboard_state \<Rightarrow> dashboard_state" where
  "run rid es st = fold (apply_effect rid) es st"

text \<open>
  Rendering: one card per key of \<open>stockResults\<close>, with props
  \<open>status={stockResults[symbol]}\<close> and \<open>isChecking={isChecking[symbol]}\<close>.
\<close>

definition isChecking_prop :: "dashboard_state \<Rightarrow> string \<Rightarrow> jsval" where
  "isChecking_prop st symbol =
    (case isChecking st symbol of None \<Rightarrow> Undefined | Some b \<Rightarrow> JBool b)"

definition Dashboard_button :: "dashboard_state \<Rightarrow> string \<Rightarrow> button option" where
  "Dashboard_button st symbol =
    (case stockResults st symbol of
       None \<Rightarrow> None
     | Some v \<Rightarrow> Some (StockCard_button v (isChecking_prop st symbol)))"

definition Dashboard_status_text :: "dashboard_state \<Rightarrow> string \<Rightarrow> string option" where
  "Dashboard_status_text st symbol =
    (case stockResults st symbol of
       None \<Rightarrow> None
     | Some v \<Rightarrow> Some (getStatusDisplay v (isChecking_prop st symbol)))"

text \<open>
  A click on a card's button: a disabled DOM button dispatches no click, otherwise
  \<open>onCheck\<close> starts \<open>checkPattern(symbol)\<close>.
\<close>

definition click_check :: "dashboard_state \<Rightarrow> string \<Rightarrow> effect list" where
  "click_check st symbol =
    (case Dashboard_button st symbol of
       None \<Rightarrow> []
     | Some b \<Rightarrow> if truthy (disabled b) then [] else checkPattern_request symbol)"

section \<open>Properties of the health monitor\<close>

lemma checkHealth_success:
  "ok res \<Longrightarrow>
   checkHealth (Resolved res) st = \<lparr>isBackendHealthy = True, showHealthAlert = False\<rparr>"
  by (simp add: checkHealth_def checkHealth_try_def)

lemma checkHealth_failure:
  "r = NetworkFailure \<or> r = AbortError \<or> (\<exists>res. r = Resolved res \<and> \<not> ok res) \<Longrightarrow>
   checkHealth r st = \<lparr>isBackendHealthy = False, showHealthAlert = True\<rparr>"
  by (auto simp: checkHealth_def checkHealth_try_def)

text \<open>
  C4. The monitor starts in Healthy/Hidden. A poll answered with a 2xx status leads to
  Healthy/Hidden from every state. A failed poll (transport failure, timeout, or a
  status outside 200..299) leads to Unhealthy/Visible from every state, in particular
  from Unhealthy/Hidden, where the alert had been dismissed.
\<close>

theorem health_monitor_transitions:
  "Layout_init = \<lparr>isBackendHealthy = True, showHealthAlert = False\<rparr>
   \<and> (\<forall>st res. 200 \<le> status res \<and> status res \<le> 299 \<longrightarrow>
        checkHealth (Resolved res) st = \<lparr>isBackendHealthy = True, showHealthAlert = False\<rparr>)
   \<and> (\<forall>st. checkHealth NetworkFailure st = \<lparr>isBackendHealthy = False, showHealthAlert = True\<rparr>)
   \<and> (\<forall>st. checkHealth AbortError st = \<lparr>isBackendHealthy = False, showHealthAlert = True\<rparr>)
   \<and> (\<forall>st res. \<not> (200 \<le> status res \<and> status res \<le> 299) \<longrightarrow>
        checkHealth (Resolved res) st = \<lparr>isBackendHealthy = False, showHealthAlert = True\<rparr>)
   \<and> (\<forall>r. r = NetworkFailure \<or> r = AbortError \<or> (\<exists>res. r = Resolved res \<and> \<not> ok res) \<longrightarrow>
        checkHealth r \<lparr>isBackendHealthy = False, showHealthAlert = False\<rparr>
          = \<lparr>isBackendHealthy = False, showHealthAlert = True\<rparr>)"
proof -
  have init: "Layout_init = \<lparr>isBackendHealthy = True, showHealthAlert = False\<rparr>"
    by (simp add: Layout_init_def)
  have good: "\<And>st res. 200 \<le> status res \<and> status res \<le> 299 \<Longrightarrow>
      checkHealth (Resolved res) st = \<lparr>isBackendHealthy = True, showHealthAlert = False\<rparr>"
    by (rule checkHealth_success) (simp add: ok_def)
  have bad: "\<And>st r. r = NetworkFailure \<or> r = AbortError \<or> (\<exists>res. r = Resolved res \<and> \<not> ok res) \<Longrightarrow>
      checkHealth r st = \<lparr>isBackendHealthy = False, showHealthAlert = True\<rparr>"
    by (rule checkHealth_failure)
  have status_bad: "\<And>st res. \<not> (200 \<le> status res \<and> status res \<le> 299) \<Longrightarrow>
      checkHealth (Resolved res) st = \<lparr>isBackendHealthy = False, showHealthAlert = True\<rparr>"
    by (rule bad) (simp add: ok_def)
  from init good bad status_bad show ?thesis by blast
qed

theorem health_monitor_transitions_witness:
  "checkHealth (Resolved \<lparr>status = 200, json = Parsed (JObj [(''status'', JStr ''ok'')])\<rparr>)
      \<lparr>isBackendHealthy = False, showHealthAlert = True\<rparr>
     = \<lparr>isBackendHealthy = True, showHealthAlert = False\<rparr>
   \<and> checkHealth (Resolved \<lparr>status = 503, json = SyntaxError\<rparr>)
      \<lparr>isBackendHealthy = True, showHealthAlert = False\<rparr>
     = \<lparr>isBackendHealthy = False, showHealthAlert = True\<rparr>
   \<and> checkHealth AbortError \<lparr>isBackendHealthy = False, showHealthAlert = False\<rparr>
     = \<lparr>isBackendHealthy = False, showHealthAlert = True\<rparr>"
proof -
  note t = health_monitor_transitions
  have a: "checkHealth (Resolved \<lparr>status = 200, json = Parsed (JObj [(''status'', JStr ''ok'')])\<rparr>)
      \<lparr>isBackendHealthy = False, showHealthAlert = True\<rparr>
     = \<lparr>isBackendHealthy = True, showHealthAlert = False\<rparr>"
    using t by simp
  have b: "checkHealth (Resolved \<lparr>status = 503, json = SyntaxError\<rparr>)
      \<lparr>isBackendHealthy = True, showHealthAlert = False\<rparr>
     = \<lparr>isBackendHealthy = False, showHealthAlert = True\<rparr>"
    using t by simp
  have c: "checkHealth AbortError \<lparr>isBackendHealthy = False, showHealthAlert = False\<rparr>
     = \<lparr>isBackendHealthy = False, showHealthAlert = True\<rparr>"
    using t by simp
  from a b c show ?thesis by simp
qed


lemma dismiss_cases:
  "dismiss st = (if st = \<lparr>isBackendHealthy = False, showHealthAlert = True\<rparr>
                 then \<lparr>isBackendHealthy = False, showHealthAlert = False\<rparr> else st)"
  by (cases st) (auto simp: dismiss_def banner_rendered_def dismiss_onClick_def)

lemma banner_rendered_iff:
  "banner_rendered st \<longleftrightarrow> st = \<lparr>isBackendHealthy = False, showHealthAlert = True\<rparr>"
  by (cases st) (auto simp: banner_rendered_def)

lemma health_step_inv:
  "isBackendHealthy st \<longrightarrow> \<not> showHealthAlert st \<Longrightarrow>
   isBackendHealthy (health_step ev st) \<longrightarrow> \<not> showHealthAlert (health_step ev st)"
  by (cases ev)
     (auto simp: checkHealth_def checkHealth_try_def dismiss_def dismiss_onClick_def
           split: fetch_result.splits if_splits)

lemma fold_health_step_inv:
  "isBackendHealthy st \<longrightarrow> \<not> showHealthAlert st \<Longrightarrow>
   isBackendHealthy (fold health_step evs st) \<longrightarrow> \<not> showHealthAlert (fold health_step evs st)"
proof (induction evs arbitrary: st)
  case Nil
  then show ?case by simp
next
  case (Cons ev evs)
  have "isBackendHealthy (health_step ev st) \<longrightarrow> \<not> showHealthAlert (health_step ev st)"
    using Cons.prems by (rule health_step_inv)
  then show ?case using Cons.IH by simp
qed

lemma health_run_never_healthy_visible:
  "health_run evs \<noteq> \<lparr>isBackendHealthy = True, showHealthAlert = True\<rparr>"
proof -
  have "isBackendHealthy (health_run evs) \<longrightarrow> \<not> showHealthAlert (health_run evs)"
    unfolding health_run_def by (rule fold_health_step_inv) (simp add: Layout_init_def)
  then show ?thesis by auto
qed

text \<open>
  C5. The dismiss action takes Unhealthy/Visible to Unhealthy/Hidden: it clears
  \<open>showHealthAlert\<close> and never changes \<open>isBackendHealthy\<close>. In every other state it
  changes nothing, because the dismiss button is rendered in Unhealthy/Visible only;
  the button's handler by itself changes nothing whenever the alert is already hidden.
\<close>

theorem dismiss_transition:
  "dismiss \<lparr>isBackendHealthy = False, showHealthAlert = True\<rparr>
     = \<lparr>isBackendHealthy = False, showHealthAlert = False\<rparr>
   \<and> (\<forall>st. isBackendHealthy (dismiss st) = isBackendHealthy st)
   \<and> (\<forall>st. st \<noteq> \<lparr>isBackendHealthy = False, showHealthAlert = True\<rparr> \<longrightarrow> dismiss st = st)
   \<and> (\<forall>st. banner_rendered st \<longleftrightarrow> st = \<lparr>isBackendHealthy = False, showHealthAlert = True\<rparr>)
   \<and> (\<forall>st. banner_rendered st \<longrightarrow> dismiss st = st\<lparr>showHealthAlert := False\<rparr>)
   \<and> (\<forall>st. \<not> showHealthAlert st \<longrightarrow> dismiss_onClick st = st)"
proof -
  have a: "dismiss \<lparr>isBackendHealthy = False, showHealthAlert = True\<rparr>
             = \<lparr>isBackendHealthy = False, showHealthAlert = False\<rparr>"
    by (simp add: dismiss_cases)
  have b: "\<And>st. isBackendHealthy (dismiss st) = isBackendHealthy st"
    by (simp add: dismiss_def dismiss_onClick_def)
  have c: "\<And>st. st \<noteq> \<lparr>isBackendHealthy = False, showHealthAlert = True\<rparr> \<Longrightarrow> dismiss st = st"
    by (simp add: dismiss_cases)
  have d: "\<And>st. banner_rendered st \<Longrightarrow> dismiss st = st\<lparr>showHealthAlert := False\<rparr>"
    by (simp add: dismiss_def dismiss_onClick_def)
  have e: "\<And>st. \<not> showHealthAlert st \<Longrightarrow> dismiss_onClick st = st"
    by (simp add: dismiss_onClick_def)
  from a b c d e banner_rendered_iff show ?thesis by blast
qed

theorem dismiss_transition_witness:
  "dismiss (checkHealth NetworkFailure Layout_init)
     = \<lparr>isBackendHealthy = False, showHealthAlert = False\<rparr>
   \<and> dismiss \<lparr>isBackendHealthy = False, showHealthAlert = False\<rparr>
     = \<lparr>isBackendHealthy = False, showHealthAlert = False\<rparr>
   \<and> dismiss Layout_init = Layout_init
   \<and> checkHealth AbortError (dismiss (checkHealth NetworkFailure Layout_init))
     = \<lparr>isBackendHealthy = False, showHealthAlert = True\<rparr>
   \<and> checkHealth (Resolved \<lparr>status = 200, json = SyntaxError\<rparr>)
        (dismiss (checkHealth NetworkFailure Layout_init))
     = \<lparr>isBackendHealthy = True, showHealthAlert = False\<rparr>"
proof -
  have s: "checkHealth NetworkFailure Layout_init
             = \<lparr>isBackendHealthy = False, showHealthAlert = True\<rparr>"
    by (simp add: checkHealth_def checkHealth_try_def Layout_init_def)
  have i: "Layout_init \<noteq> \<lparr>isBackendHealthy = False, showHealthAlert = True\<rparr>"
    by (simp add: Layout_init_def)
  have a: "dismiss (checkHealth NetworkFailure Layout_init)
             = \<lparr>isBackendHealthy = False, showHealthAlert = False\<rparr>"
    using dismiss_transition s by simp
  have b: "dismiss \<lparr>isBackendHealthy = False, showHealthAlert = False\<rparr>
             = \<lparr>isBackendHealthy = False, showHealthAlert = False\<rparr>"
    using dismiss_transition by simp
  have c: "dismiss Layout_init = Layout_init"
    using dismiss_transition i by blast
  have d: "checkHealth AbortError (dismiss (checkHealth NetworkFailure Layout_init))
     = \<lparr>isBackendHealthy = False, showHealthAlert = True\<rparr>"
    unfolding a by (simp add: checkHealth_def checkHealth_try_def)
  have e: "checkHealth (Resolved \<lparr>status = 200, json = SyntaxError\<rparr>)
        (dismiss (checkHealth NetworkFailure Layout_init))
     = \<lparr>isBackendHealthy = True, showHealthAlert = False\<rparr>"
    unfolding a by (simp add: checkHealth_def checkHealth_try_def ok_def)
  from a b c d e show ?thesis by simp
qed


section \<open>Properties of the pattern check\<close>

lemma checkPattern_settle_shape:
  "\<exists>es. snd (checkPattern_settle S r) = es @ [SetIsChecking S False]
        \<and> (\<forall>e \<in> set es. \<forall>s b. e \<noteq> SetIsChecking s b)"
  by (auto simp: checkPattern_settle_def checkPattern_try_def checkPattern_catch_def
                 checkPattern_finally_def
           split: fetch_result.splits json_result.splits sum.splits)

lemma run_append: "run rid (es @ fs) st = run rid fs (run rid es st)"
  by (simp add: run_def)

lemma run_single: "run rid [e] st = apply_effect rid e st"
  by (simp add: run_def)

lemma filter_none:
  "\<forall>e \<in> set es. \<forall>s b. e \<noteq> SetIsChecking s b \<Longrightarrow> filter (\<lambda>e. e = SetIsChecking S c) es = []"
  by (induction es) auto

text \<open>
  C1. For every symbol \<open>S\<close> and every way the request can settle, \<open>checkPattern\<close>
  first sets the in-flight marker of \<open>S\<close> to true (before the request goes out),
  clears it exactly once, as its last effect, and lets no exception out. Whatever the
  rest of the page did in between, the marker of \<open>S\<close> is false once the call has
  settled.
\<close>

theorem checkPattern_marker:
  "hd (snd (checkPattern S r)) = SetIsChecking S True
   \<and> (\<forall>st. isChecking (run rid (checkPattern_request S) st) S = Some True)
   \<and> length (filter (\<lambda>e. e = SetIsChecking S True) (snd (checkPattern S r))) = 1
   \<and> length (filter (\<lambda>e. e = SetIsChecking S False) (snd (checkPattern S r))) = 1
   \<and> last (snd (checkPattern S r)) = SetIsChecking S False
   \<and> (\<forall>st. isChecking (run rid (snd (checkPattern_settle S r)) st) S = Some False)
   \<and> (\<forall>st. isChecking (run rid (snd (checkPattern S r)) st) S = Some False)
   \<and> fst (checkPattern S r) = None"
proof -
  obtain es where es: "snd (checkPattern_settle S r) = es @ [SetIsChecking S False]"
    and no: "\<forall>e \<in> set es. \<forall>s b. e \<noteq> SetIsChecking s b"
    using checkPattern_settle_shape by blast
  have whole: "snd (checkPattern S r)
      = SetIsChecking S True # Fetch (API_BASE_URL @ ''/api/pattern?symbol='' @ S)
          # es @ [SetIsChecking S False]"
    by (simp add: checkPattern_def checkPattern_request_def es)
  have f: "\<And>c. filter (\<lambda>e. e = SetIsChecking S c) es = []"
    using no by (rule filter_none)
  have a: "hd (snd (checkPattern S r)) = SetIsChecking S True"
    by (simp add: whole)
  have b: "\<And>st. isChecking (run rid (checkPattern_request S) st) S = Some True"
    by (simp add: checkPattern_request_def run_def)
  have c: "length (filter (\<lambda>e. e = SetIsChecking S True) (snd (checkPattern S r))) = 1"
    by (simp add: whole f)
  have d: "length (filter (\<lambda>e. e = SetIsChecking S False) (snd (checkPattern S r))) = 1"
    by (simp add: whole f)
  have e: "last (snd (checkPattern S r)) = SetIsChecking S False"
    by (simp add: whole)
  have g: "\<And>st. isChecking (run rid (snd (checkPattern_settle S r)) st) S = Some False"
    by (simp add: es run_append run_single)
  have h: "\<And>st. isChecking (run rid (snd (checkPattern S r)) st) S = Some False"
    by (simp add: checkPattern_def run_append g)
  have i: "fst (checkPattern S r) = None"
    by (simp add: checkPattern_def checkPattern_settle_def split: sum.splits)
  from a b c d e g h i show ?thesis by blast
qed

lemma checkPattern_try_failure:
  assumes "r = NetworkFailure \<or> r = AbortError
     \<or> (\<exists>res. r = Resolved res \<and> (\<not> ok res \<or> json res = SyntaxError \<or> json res = Parsed Null))"
  shows "\<exists>err. checkPattern_try S r = Inl err"
  using assms by (auto simp: checkPattern_try_def)

lemma toasts_toast:
  "toasts (snd (toast rid args st)) =
     toasts st @ [[(''id'', JStr rid), (''title'', get_prop args ''title''),
                  (''description'', get_prop args ''description''),
                  (''variant'', if get_prop args ''variant'' = Undefined then JStr ''default''
                                else get_prop args ''variant'')]]"
  by (simp add: toast_def Let_def)

lemma run_catch_finally:
  "run rid (checkPattern_catch S @ checkPattern_finally S) st =
     st\<lparr>stockResults := (stockResults st)(S \<mapsto> Null),
        isChecking := (isChecking st)(S \<mapsto> False),
        provider := snd (toast rid
           [(''title'', JStr ''Error''),
            (''description'', JStr ''Could not reach the server or received an invalid response.''),
            (''variant'', JStr ''destructive'')] (provider st))\<rparr>"
  by (simp add: checkPattern_catch_def checkPattern_finally_def run_def)

text \<open>
  Every path on which the \<open>try\<close> block throws ends the same way. On a transport
  failure, on the client-side timeout, on a status outside 200..299 and on a body on
  which \<open>res.json()\<close> rejects (or that is the JSON value \<open>null\<close>, where the
  destructuring throws), the failure is logged, exactly one toast of variant
  \<open>destructive\<close> with the fixed title \<open>Error\<close> and the fixed description is appended,
  the symbol's result is reset to \<open>null\<close> (shown as "Not checked"), the marker is
  cleared, and no exception leaves \<open>checkPattern\<close>.
\<close>

theorem checkPattern_failure:
  assumes "r = NetworkFailure \<or> r = AbortError
     \<or> (\<exists>res. r = Resolved res \<and> (\<not> ok res \<or> json res = SyntaxError \<or> json res = Parsed Null))"
    and "st' = run rid (snd (checkPattern_settle S r)) st"
  shows "checkPattern_settle S r =
      (None, [ConsoleError,
              Toast [(''title'', JStr ''Error''),
                     (''description'',
                        JStr ''Could not reach the server or received an invalid response.''),
                     (''variant'', JStr ''destructive'')],
              SetStockResults S Null,
              SetIsChecking S False])
    \<and> stockResults st' S = Some Null
    \<and> Dashboard_status_text st' S = Some ''Not checked''
    \<and> toasts (provider st') = toasts (provider st) @
         [[(''id'', JStr rid), (''title'', JStr ''Error''),
           (''description'',
              JStr ''Could not reach the server or received an invalid response.''),
           (''variant'', JStr ''destructive'')]]
    \<and> toast_severity (last (toasts (provider st'))) = Alert
    \<and> isChecking st' S = Some False"
proof -
  obtain err where err: "checkPattern_try S r = Inl err"
    using checkPattern_try_failure [OF assms(1)] by blast
  have settle: "checkPattern_settle S r = (None, checkPattern_catch S @ checkPattern_finally S)"
    by (simp add: checkPattern_settle_def err)
  have st': "st' = st\<lparr>stockResults := (stockResults st)(S \<mapsto> Null),
        isChecking := (isChecking st)(S \<mapsto> False),
        provider := snd (toast rid
           [(''title'', JStr ''Error''),
            (''description'', JStr ''Could not reach the server or received an invalid response.''),
            (''variant'', JStr ''destructive'')] (provider st))\<rparr>"
    by (simp add: assms(2) settle run_catch_finally)
  have a: "checkPattern_settle S r =
      (None, [ConsoleError,
              Toast [(''title'', JStr ''Error''),
                     (''description'',
                        JStr ''Could not reach the server or received an invalid response.''),
                     (''variant'', JStr ''destructive'')],
              SetStockResults S Null,
              SetIsChecking S False])"
    by (simp add: settle checkPattern_catch_def checkPattern_finally_def)
  have b: "stockResults st' S = Some Null" by (simp add: st')
  have c: "Dashboard_status_text st' S = Some ''Not checked''"
    by (simp add: st' Dashboard_status_text_def isChecking_prop_def getStatusDisplay_def)
  have d: "toasts (provider st') = toasts (provider st) @
         [[(''id'', JStr rid), (''title'', JStr ''Error''),
           (''description'',
              JStr ''Could not reach the server or received an invalid response.''),
           (''variant'', JStr ''destructive'')]]"
    by (simp add: st' toasts_toast get_prop_def)
  have e: "toast_severity (last (toasts (provider st'))) = Alert"
    by (simp add: d toast_severity_def get_prop_def)
  have f: "isChecking st' S = Some False" by (simp add: st')
  from a b c d e f show ?thesis by blast
qed


theorem checkPattern_failure_witness:
  "checkPattern_settle ''MSFT'' AbortError =
      (None, [ConsoleError,
              Toast [(''title'', JStr ''Error''),
                     (''description'',
                        JStr ''Could not reach the server or received an invalid response.''),
                     (''variant'', JStr ''destructive'')],
              SetStockResults ''MSFT'' Null,
              SetIsChecking ''MSFT'' False])
   \<and> stockResults (run ''q1w2e3r'' (snd (checkPattern ''MSFT'' AbortError)) Dashboard_init) ''MSFT''
       = Some Null
   \<and> render_toasts (provider (run ''q1w2e3r'' (snd (checkPattern ''MSFT'' AbortError)) Dashboard_init))
       = [(JStr ''Error'',
           JStr ''Could not reach the server or received an invalid response.'', Alert)]
   \<and> isChecking (run ''q1w2e3r'' (snd (checkPattern ''MSFT'' AbortError)) Dashboard_init) ''MSFT''
       = Some False"
proof -
  let ?st = "run ''q1w2e3r'' (checkPattern_request ''MSFT'') Dashboard_init"
  let ?st' = "run ''q1w2e3r'' (snd (checkPattern_settle ''MSFT'' AbortError)) ?st"
  have eq: "run ''q1w2e3r'' (snd (checkPattern ''MSFT'' AbortError)) Dashboard_init = ?st'"
    by (simp add: checkPattern_def run_append)
  have pre: "toasts (provider ?st) = []"
    by (simp add: checkPattern_request_def run_def Dashboard_init_def provider_init_def)
  have h: "AbortError = NetworkFailure \<or> AbortError = AbortError
     \<or> (\<exists>res. AbortError = Resolved res
            \<and> (\<not> ok res \<or> json res = SyntaxError \<or> json res = Parsed Null))"
    by simp
  note t = checkPattern_failure [OF h refl, of "''MSFT''" "''q1w2e3r''" ?st]
  have a: "checkPattern_settle ''MSFT'' AbortError =
      (None, [ConsoleError,
              Toast [(''title'', JStr ''Error''),
                     (''description'',
                        JStr ''Could not reach the server or received an invalid response.''),
                     (''variant'', JStr ''destructive'')],
              SetStockResults ''MSFT'' Null,
              SetIsChecking ''MSFT'' False])"
    using t by blast
  have b: "stockResults ?st' ''MSFT'' = Some Null" using t by blast
  have c1: "toasts (provider ?st') = toasts (provider ?st) @
         [[(''id'', JStr ''q1w2e3r''), (''title'', JStr ''Error''),
           (''description'',
              JStr ''Could not reach the server or received an invalid response.''),
           (''variant'', JStr ''destructive'')]]"
    using t by blast
  have c0: "toasts (provider ?st') =
         [[(''id'', JStr ''q1w2e3r''), (''title'', JStr ''Error''),
           (''description'',
              JStr ''Could not reach the server or received an invalid response.''),
           (''variant'', JStr ''destructive'')]]"
    unfolding c1 pre by simp
  have c: "render_toasts (provider ?st') = [(JStr ''Error'',
           JStr ''Could not reach the server or received an invalid response.'', Alert)]"
    by (simp add: render_toasts_def c0 get_prop_def toast_severity_def)
  have d: "isChecking ?st' ''MSFT'' = Some False" using t by blast
  from a b c d show ?thesis unfolding eq by blast
qed

lemma run_success_finally:
  "run rid ([SetStockResults S v, Toast args] @ checkPattern_finally S) st =
     st\<lparr>stockResults := (stockResults st)(S \<mapsto> v),
        isChecking := (isChecking st)(S \<mapsto> False),
        provider := snd (toast rid args (provider st))\<rparr>"
  by (simp add: checkPattern_finally_def run_def)

text \<open>
  C3. On a 2xx response whose body is a JSON object with a boolean \<open>pattern_detected\<close>,
  the symbol's result becomes that boolean (shown as "Pattern detected" for true and
  "No pattern detected" for false) and exactly one toast is appended: variant
  \<open>default\<close> (severity normal) when the pattern was detected, variant \<open>destructive\<close>
  (severity alert) otherwise.
\<close>

theorem checkPattern_success:
  assumes "ok res" and "json res = Parsed (JObj kvs)"
    and "get_prop kvs ''pattern_detected'' = JBool b"
    and "st' = run rid (snd (checkPattern_settle S (Resolved res))) st"
  shows "checkPattern_settle S (Resolved res) =
      (None, [SetStockResults S (JBool b),
              Toast [(''title'', JStr (if b then ''Cup & Handle Pattern Detected''
                                       else ''No Pattern Detected'')),
                     (''description'', JStr (''Finished analyzing '' @ S @ ''.'')),
                     (''variant'', JStr (if b then ''default'' else ''destructive''))],
              SetIsChecking S False])
    \<and> stockResults st' S = Some (JBool b)
    \<and> Dashboard_status_text st' S
        = Some (if b then ''Pattern detected'' else ''No pattern detected'')
    \<and> toasts (provider st') = toasts (provider st) @
         [[(''id'', JStr rid),
           (''title'', JStr (if b then ''Cup & Handle Pattern Detected''
                            else ''No Pattern Detected'')),
           (''description'', JStr (''Finished analyzing '' @ S @ ''.'')),
           (''variant'', JStr (if b then ''default'' else ''destructive''))]]
    \<and> toast_severity (last (toasts (provider st'))) = (if b then Normal else Alert)
    \<and> isChecking st' S = Some False"
proof -
  let ?args = "[(''title'', JStr (if b then ''Cup & Handle Pattern Detected''
                                       else ''No Pattern Detected'')),
                     (''description'', JStr (''Finished analyzing '' @ S @ ''.'')),
                     (''variant'', JStr (if b then ''default'' else ''destructive''))]"
  have tr: "checkPattern_try S (Resolved res) = Inr [SetStockResults S (JBool b), Toast ?args]"
    using assms(1,2,3) by (simp add: checkPattern_try_def)
  have settle: "checkPattern_settle S (Resolved res)
      = (None, [SetStockResults S (JBool b), Toast ?args] @ checkPattern_finally S)"
    by (simp add: checkPattern_settle_def tr)
  have st': "st' = st\<lparr>stockResults := (stockResults st)(S \<mapsto> JBool b),
        isChecking := (isChecking st)(S \<mapsto> False),
        provider := snd (toast rid ?args (provider st))\<rparr>"
    unfolding assms(4) settle snd_conv by (rule run_success_finally)
  have a: "checkPattern_settle S (Resolved res) =
      (None, [SetStockResults S (JBool b), Toast ?args, SetIsChecking S False])"
    by (simp add: settle checkPattern_finally_def)
  have b: "stockResults st' S = Some (JBool b)" by (simp add: st')
  have c: "Dashboard_status_text st' S
        = Some (if b then ''Pattern detected'' else ''No pattern detected'')"
    by (simp add: st' Dashboard_status_text_def isChecking_prop_def getStatusDisplay_def)
  have d: "toasts (provider st') = toasts (provider st) @
         [[(''id'', JStr rid),
           (''title'', JStr (if b then ''Cup & Handle Pattern Detected''
                            else ''No Pattern Detected'')),
           (''description'', JStr (''Finished analyzing '' @ S @ ''.'')),
           (''variant'', JStr (if b then ''default'' else ''destructive''))]]"
    by (simp add: st' toasts_toast get_prop_def)
  have e: "toast_severity (last (toasts (provider st'))) = (if b then Normal else Alert)"
    by (simp add: d toast_severity_def get_prop_def)
  have f: "isChecking st' S = Some False" by (simp add: st')
  from a b c d e f show ?thesis by blast
qed

theorem checkPattern_success_witness:
  "stockResults (run ''a1b2c3d'' (snd (checkPattern ''AAPL''
       (Resolved \<lparr>status = 200, json = Parsed (JObj [(''pattern_detected'', JBool True)])\<rparr>)))
       Dashboard_init) ''AAPL'' = Some (JBool True)
   \<and> render_toasts (provider (run ''a1b2c3d'' (snd (checkPattern ''AAPL''
       (Resolved \<lparr>status = 200, json = Parsed (JObj [(''pattern_detected'', JBool True)])\<rparr>)))
       Dashboard_init))
      = [(JStr ''Cup & Handle Pattern Detected'', JStr ''Finished analyzing AAPL.'', Normal)]"
proof -
  let ?res = "\<lparr>status = 200, json = Parsed (JObj [(''pattern_detected'', JBool True)])\<rparr>"
  let ?st = "run ''a1b2c3d'' (checkPattern_request ''AAPL'') Dashboard_init"
  let ?st' = "run ''a1b2c3d'' (snd (checkPattern_settle ''AAPL'' (Resolved ?res))) ?st"
  have eq: "run ''a1b2c3d'' (snd (checkPattern ''AAPL'' (Resolved ?res))) Dashboard_init = ?st'"
    by (simp add: checkPattern_def run_append)
  have pre: "toasts (provider ?st) = []"
    by (simp add: checkPattern_request_def run_def Dashboard_init_def provider_init_def)
  have h1: "ok ?res" by (simp add: ok_def)
  have h2: "json ?res = Parsed (JObj [(''pattern_detected'', JBool True)])" by simp
  have h3: "get_prop [(''pattern_detected'', JBool True)] ''pattern_detected'' = JBool True"
    by (simp add: get_prop_def)
  note t = checkPattern_success [OF h1 h2 h3 refl, of "''AAPL''" "''a1b2c3d''" ?st]
  have b: "stockResults ?st' ''AAPL'' = Some (JBool True)" using t by blast
  have c1: "toasts (provider ?st') = toasts (provider ?st) @
         [[(''id'', JStr ''a1b2c3d''),
           (''title'', JStr (if True then ''Cup & Handle Pattern Detected''
                            else ''No Pattern Detected'')),
           (''description'', JStr (''Finished analyzing '' @ ''AAPL'' @ ''.'')),
           (''variant'', JStr (if True then ''default'' else ''destructive''))]]"
    using t by blast
  have c0: "toasts (provider ?st') =
         [[(''id'', JStr ''a1b2c3d''),
           (''title'', JStr ''Cup & Handle Pattern Detected''),
           (''description'', JStr ''Finished analyzing AAPL.''),
           (''variant'', JStr ''default'')]]"
    unfolding c1 pre by simp
  have c: "render_toasts (provider ?st')
      = [(JStr ''Cup & Handle Pattern Detected'', JStr ''Finished analyzing AAPL.'', Normal)]"
    by (simp add: render_toasts_def c0 get_prop_def toast_severity_def)
  from b c show ?thesis unfolding eq by blast
qed



text \<open>
  C2. The claim fails in the code for a malformed body that still parses. The body
  is never validated: on status 200 with the body \<open>{}\<close> nothing throws, the success
  path runs with \<open>undefined\<close>, the result is not reset to \<open>null\<close> (the card shows
  "No pattern detected") and the toast is "No Pattern Detected", not the failure
  message of the \<open>catch\<close> block ("... or received an invalid response"). With the body
  \<open>{"pattern_detected": "false"}\<close> the non-empty string is truthy and the toast is a
  normal-severity "Cup & Handle Pattern Detected".
\<close>

theorem checkPattern_unvalidated_body:
  "checkPattern_settle ''MSFT'' (Resolved \<lparr>status = 200, json = Parsed (JObj [])\<rparr>) =
     (None, [SetStockResults ''MSFT'' Undefined,
             Toast [(''title'', JStr ''No Pattern Detected''),
                    (''description'', JStr ''Finished analyzing MSFT.''),
                    (''variant'', JStr ''destructive'')],
             SetIsChecking ''MSFT'' False])
   \<and> stockResults (run ''q1w2e3r''
         (snd (checkPattern ''MSFT'' (Resolved \<lparr>status = 200, json = Parsed (JObj [])\<rparr>)))
         Dashboard_init) ''MSFT'' = Some Undefined
   \<and> Dashboard_status_text (run ''q1w2e3r''
         (snd (checkPattern ''MSFT'' (Resolved \<lparr>status = 200, json = Parsed (JObj [])\<rparr>)))
         Dashboard_init) ''MSFT'' = Some ''No pattern detected''
   \<and> render_toasts (provider (run ''q1w2e3r''
         (snd (checkPattern ''MSFT'' (Resolved \<lparr>status = 200, json = Parsed (JObj [])\<rparr>)))
         Dashboard_init))
       = [(JStr ''No Pattern Detected'', JStr ''Finished analyzing MSFT.'', Alert)]
   \<and> render_toasts (provider (run ''q1w2e3r''
         (snd (checkPattern ''MSFT'' (Resolved \<lparr>status = 200,
            json = Parsed (JObj [(''pattern_detected'', JStr ''false'')])\<rparr>)))
         Dashboard_init))
       = [(JStr ''Cup & Handle Pattern Detected'', JStr ''Finished analyzing MSFT.'', Normal)]"
proof -
  let ?r = "Resolved \<lparr>status = 200, json = Parsed (JObj [])\<rparr>"
  let ?q = "Resolved \<lparr>status = 200,
            json = Parsed (JObj [(''pattern_detected'', JStr ''false'')])\<rparr>"
  have a: "checkPattern_settle ''MSFT'' ?r =
     (None, [SetStockResults ''MSFT'' Undefined,
             Toast [(''title'', JStr ''No Pattern Detected''),
                    (''description'', JStr ''Finished analyzing MSFT.''),
                    (''variant'', JStr ''destructive'')],
             SetIsChecking ''MSFT'' False])"
    by (simp add: checkPattern_settle_def checkPattern_try_def checkPattern_finally_def ok_def
                  get_prop_def)
  have q: "checkPattern_settle ''MSFT'' ?q =
     (None, [SetStockResults ''MSFT'' (JStr ''false''),
             Toast [(''title'', JStr ''Cup & Handle Pattern Detected''),
                    (''description'', JStr ''Finished analyzing MSFT.''),
                    (''variant'', JStr ''default'')],
             SetIsChecking ''MSFT'' False])"
    by (simp add: checkPattern_settle_def checkPattern_try_def checkPattern_finally_def ok_def
                  get_prop_def)
  have b: "stockResults (run ''q1w2e3r'' (snd (checkPattern ''MSFT'' ?r)) Dashboard_init) ''MSFT''
      = Some Undefined"
    by (simp add: checkPattern_def a run_append) (simp add: run_def)
  have c: "Dashboard_status_text (run ''q1w2e3r'' (snd (checkPattern ''MSFT'' ?r)) Dashboard_init)
      ''MSFT'' = Some ''No pattern detected''"
    by (simp add: checkPattern_def a run_append)
       (simp add: run_def Dashboard_status_text_def isChecking_prop_def getStatusDisplay_def)
  have d: "render_toasts (provider (run ''q1w2e3r'' (snd (checkPattern ''MSFT'' ?r)) Dashboard_init))
      = [(JStr ''No Pattern Detected'', JStr ''Finished analyzing MSFT.'', Alert)]"
    by (simp add: checkPattern_def a run_append)
       (simp add: run_def checkPattern_request_def Dashboard_init_def provider_init_def
                  toasts_toast render_toasts_def get_prop_def toast_severity_def)
  have e: "render_toasts (provider (run ''q1w2e3r'' (snd (checkPattern ''MSFT'' ?q)) Dashboard_init))
      = [(JStr ''Cup & Handle Pattern Detected'', JStr ''Finished analyzing MSFT.'', Normal)]"
    by (simp add: checkPattern_def q run_append)
       (simp add: run_def checkPattern_request_def Dashboard_init_def provider_init_def
                  toasts_toast render_toasts_def get_prop_def toast_severity_def)
  from a b c d e show ?thesis by (intro conjI)
qed


section \<open>Properties of the toast queue\<close>

lemma timers_toast: "timers (snd (toast rid args st)) = timers st @ [(clock st + 3000, rid)]"
  by (simp add: toast_def Let_def)

lemma clock_toast: "clock (snd (toast rid args st)) = clock st"
  by (simp add: toast_def Let_def)

lemma fst_toast: "fst (toast rid args st) = Undefined"
  by (simp add: toast_def Let_def)

lemma fold_remove_toast:
  "fold (\<lambda>(due, rid). remove_toast rid) tms ts
     = filter (\<lambda>n. get_prop n ''id'' \<notin> JStr ` snd ` set tms) ts"
proof (induction tms arbitrary: ts)
  case Nil
  then show ?case by simp
next
  case (Cons tm tms)
  obtain due rid where tm: "tm = (due, rid)" by (cases tm)
  have "fold (\<lambda>(due, rid). remove_toast rid) (tm # tms) ts
      = fold (\<lambda>(due, rid). remove_toast rid) tms (remove_toast rid ts)"
    by (simp add: tm)
  also have "\<dots> = filter (\<lambda>n. get_prop n ''id'' \<notin> JStr ` snd ` set tms) (remove_toast rid ts)"
    by (rule Cons.IH)
  also have "\<dots> = filter (\<lambda>n. get_prop n ''id'' \<notin> JStr ` snd ` set (tm # tms)) ts"
    unfolding remove_toast_def filter_filter by (rule filter_cong) (auto simp: tm)
  finally show ?case .
qed

lemma toasts_run_timers:
  "toasts (run_timers t st)
     = filter (\<lambda>n. get_prop n ''id'' \<notin> JStr ` snd ` set (filter (\<lambda>(due, rid). due \<le> t) (timers st)))
         (toasts st)"
  by (simp add: run_timers_def fold_remove_toast)

lemma timers_run_timers:
  "timers (run_timers t st) = filter (\<lambda>(due, rid). t < due) (timers st)"
  by (simp add: run_timers_def not_le)

lemma subseq_run_timers: "subseq (toasts (run_timers t st)) (toasts st)"
  by (simp add: toasts_run_timers)

lemma filter_distinct_remove1:
  "distinct (map f xs) \<Longrightarrow> n \<in> set xs \<Longrightarrow> filter (\<lambda>x. f x \<noteq> f n) xs = remove1 n xs"
proof (induction xs)
  case Nil
  then show ?case by simp
next
  case (Cons x xs)
  show ?case
  proof (cases "x = n")
    case True
    have "f n \<notin> f ` set xs" using Cons.prems(1) True by simp
    then have "\<forall>x \<in> set xs. f x \<noteq> f n"
      by (metis imageI)
    then have "filter (\<lambda>x. f x \<noteq> f n) xs = xs"
      by (simp add: filter_id_conv)
    then show ?thesis using True by simp
  next
    case False
    then have "n \<in> set xs" using Cons.prems(2) by simp
    moreover have "f x \<noteq> f n" using Cons.prems(1) \<open>n \<in> set xs\<close> by auto
    ultimately show ?thesis using Cons False by simp
  qed
qed

lemma expiry_removes_one:
  assumes d: "distinct (map (\<lambda>m. get_prop m ''id'') (toasts st))"
    and one: "filter (\<lambda>(due, i). due \<le> t) (timers st) = [(due, rid)]"
    and n: "n \<in> set (toasts st)" "get_prop n ''id'' = JStr rid"
  shows "toasts (run_timers t st) = remove1 n (toasts st)"
proof -
  have "toasts (run_timers t st)
      = filter (\<lambda>m. get_prop m ''id'' \<noteq> get_prop n ''id'') (toasts st)"
    by (simp add: toasts_run_timers one n(2))
  also have "\<dots> = remove1 n (toasts st)"
    using d n(1) by (rule filter_distinct_remove1)
  finally show ?thesis .
qed

lemma other_timers_kept:
  assumes one: "filter (\<lambda>(due, i). due \<le> t) (timers st) = [(due, rid)]"
    and x: "x \<in> set (timers st)" "x \<noteq> (due, rid)"
  shows "x \<in> set (timers (run_timers t st))"
proof -
  have "\<not> fst x \<le> t"
  proof
    assume "fst x \<le> t"
    then have "x \<in> set (filter (\<lambda>(due, i). due \<le> t) (timers st))"
      using x(1) by (auto simp: case_prod_beta)
    then show False using one x(2) by simp
  qed
  then show ?thesis using x(1) by (auto simp: timers_run_timers case_prod_beta)
qed

lemma toast_lifetime:
  assumes fresh: "rid \<notin> snd ` set (timers st)"
    and st': "st' = snd (toast rid args st)"
  shows "last (toasts st') \<in> set (toasts (run_timers t st')) \<longleftrightarrow> t < clock st + 3000"
proof -
  let ?n = "last (toasts st')"
  have id: "get_prop ?n ''id'' = JStr rid"
    by (simp add: st' toasts_toast get_prop_def)
  have mem: "?n \<in> set (toasts st')" by (simp add: st' toasts_toast)
  have "?n \<in> set (toasts (run_timers t st'))
      \<longleftrightarrow> rid \<notin> snd ` set (filter (\<lambda>(due, i). due \<le> t) (timers st'))"
    using mem by (auto simp: toasts_run_timers id)
  also have "\<dots> \<longleftrightarrow> \<not> clock st + 3000 \<le> t"
    using fresh by (auto simp: st' timers_toast image_iff)
  finally show ?thesis by auto
qed


text \<open>
  C6 (as amended). Every call of \<open>toast\<close> succeeds, appends the new notification at
  the end of the list and registers exactly one removal timer, due 3000 ms after the
  call. The call returns \<open>undefined\<close>: the id of the new notification is not handed
  back to the caller.
\<close>

theorem toast_enqueue:
  "fst (toast rid args st) = Undefined
   \<and> toasts (snd (toast rid args st)) =
       toasts st @ [[(''id'', JStr rid), (''title'', get_prop args ''title''),
                     (''description'', get_prop args ''description''),
                     (''variant'', if get_prop args ''variant'' = Undefined then JStr ''default''
                                   else get_prop args ''variant'')]]
   \<and> get_prop (last (toasts (snd (toast rid args st)))) ''id'' = JStr rid
   \<and> timers (snd (toast rid args st)) = timers st @ [(clock st + 3000, rid)]
   \<and> length (timers (snd (toast rid args st))) = Suc (length (timers st))
   \<and> clock (snd (toast rid args st)) = clock st"
  by (simp add: fst_toast toasts_toast timers_toast clock_toast get_prop_def)

text \<open>
  C6 as stated fails: the value of the call is not the id of the notification it
  created.
\<close>

theorem toast_return_counterexample:
  "fst (toast ''k3j9x2a''
          [(''title'', JStr ''Error''),
           (''description'', JStr ''Could not reach the server or received an invalid response.''),
           (''variant'', JStr ''destructive'')] provider_init) \<noteq> JStr ''k3j9x2a''
   \<and> get_prop (last (toasts (snd (toast ''k3j9x2a''
          [(''title'', JStr ''Error''),
           (''description'', JStr ''Could not reach the server or received an invalid response.''),
           (''variant'', JStr ''destructive'')] provider_init)))) ''id'' = JStr ''k3j9x2a''"
  by (simp add: fst_toast toasts_toast get_prop_def)

text \<open>
  What holds of the queue. The list keeps creation order: \<open>toast\<close> appends, and the
  passing of time only deletes entries, so what remains is a subsequence of what was
  there, and the timers that are not yet due stay registered unchanged. When the ids
  in the list are pairwise distinct and one timer elapses, exactly the one
  notification with that id is removed and every other timer stays. A notification
  whose id no pending timer carries stays in the list until exactly 3000 ms after
  its creation, whatever else is queued.
\<close>

theorem toast_expiry_order:
  "toasts (snd (toast rid args st)) = toasts st @ [last (toasts (snd (toast rid args st)))]
   \<and> subseq (toasts (run_timers t st)) (toasts st)
   \<and> timers (run_timers t st) = filter (\<lambda>(d, i). t < d) (timers st)
   \<and> toasts (run_timers t st) =
       filter (\<lambda>m. get_prop m ''id'' \<notin> JStr ` snd ` set (filter (\<lambda>(d, i). d \<le> t) (timers st)))
         (toasts st)
   \<and> (distinct (map (\<lambda>m. get_prop m ''id'') (toasts st))
        \<and> filter (\<lambda>(d, i). d \<le> t) (timers st) = [(due, i)]
        \<and> n \<in> set (toasts st) \<and> get_prop n ''id'' = JStr i
      \<longrightarrow> toasts (run_timers t st) = remove1 n (toasts st)
          \<and> (\<forall>x \<in> set (timers st). x \<noteq> (due, i) \<longrightarrow> x \<in> set (timers (run_timers t st))))
   \<and> (rid \<notin> snd ` set (timers st)
      \<longrightarrow> (last (toasts (snd (toast rid args st)))
              \<in> set (toasts (run_timers t (snd (toast rid args st))))
            \<longleftrightarrow> t < clock st + 3000))"
proof -
  have a: "toasts (snd (toast rid args st)) = toasts st @ [last (toasts (snd (toast rid args st)))]"
    by (simp add: toasts_toast)
  have b: "subseq (toasts (run_timers t st)) (toasts st)"
    by (rule subseq_run_timers)
  have c: "timers (run_timers t st) = filter (\<lambda>(d, i). t < d) (timers st)"
    by (rule timers_run_timers)
  have d: "toasts (run_timers t st) =
       filter (\<lambda>m. get_prop m ''id'' \<notin> JStr ` snd ` set (filter (\<lambda>(d, i). d \<le> t) (timers st)))
         (toasts st)"
    by (rule toasts_run_timers)
  have e: "distinct (map (\<lambda>m. get_prop m ''id'') (toasts st))
        \<and> filter (\<lambda>(d, i). d \<le> t) (timers st) = [(due, i)]
        \<and> n \<in> set (toasts st) \<and> get_prop n ''id'' = JStr i
      \<longrightarrow> toasts (run_timers t st) = remove1 n (toasts st)
          \<and> (\<forall>x \<in> set (timers st). x \<noteq> (due, i) \<longrightarrow> x \<in> set (timers (run_timers t st)))"
    using expiry_removes_one [of st t due i n] other_timers_kept [of t st due i] by blast
  have f: "rid \<notin> snd ` set (timers st)
      \<longrightarrow> (last (toasts (snd (toast rid args st)))
              \<in> set (toasts (run_timers t (snd (toast rid args st))))
            \<longleftrightarrow> t < clock st + 3000)"
    using toast_lifetime [OF _ refl, of rid st args t] by blast
  from a b c d e f show ?thesis by blast
qed


lemmas toast_eval = toast_def run_timers_def provider_init_def remove_toast_def get_prop_def Let_def

text \<open>
  C7. The claim fails in the code when the random id repeats (\<open>Math.random()\<close>
  returning 0.5 twice gives the id \<open>"i"\<close> twice). Two notifications with the same
  id are created at 0 ms and at 2000 ms. At 3000 ms the first one's timer removes
  both, the second after 1000 ms only, against the code's own comment "Automatically
  remove toast after 3 seconds"; the second one's timer is still pending.
\<close>

theorem toast_expiry_repeated_id:
  "toasts (snd (toast ''i'' [(''title'', JStr ''second'')]
            (run_timers 2000 (snd (toast ''i'' [(''title'', JStr ''first'')] provider_init)))))
     = [[(''id'', JStr ''i''), (''title'', JStr ''first''), (''description'', Undefined),
         (''variant'', JStr ''default'')],
        [(''id'', JStr ''i''), (''title'', JStr ''second''), (''description'', Undefined),
         (''variant'', JStr ''default'')]]
   \<and> toasts (run_timers 3000 (snd (toast ''i'' [(''title'', JStr ''second'')]
            (run_timers 2000 (snd (toast ''i'' [(''title'', JStr ''first'')] provider_init))))))
     = []
   \<and> timers (run_timers 3000 (snd (toast ''i'' [(''title'', JStr ''second'')]
            (run_timers 2000 (snd (toast ''i'' [(''title'', JStr ''first'')] provider_init))))))
     = [(5000, ''i'')]"
  by (simp add: toast_eval)

theorem toast_expiry_order_witness:
  "toasts (run_timers 3000 (snd (toast ''bbbbbbb'' [(''title'', JStr ''second'')]
            (run_timers 1000 (snd (toast ''aaaaaaa'' [(''title'', JStr ''first'')] provider_init))))))
     = [[(''id'', JStr ''bbbbbbb''), (''title'', JStr ''second''), (''description'', Undefined),
         (''variant'', JStr ''default'')]]
   \<and> (4000, ''bbbbbbb'') \<in> set (timers (run_timers 3000 (snd (toast ''bbbbbbb'' [(''title'', JStr ''second'')]
            (run_timers 1000 (snd (toast ''aaaaaaa'' [(''title'', JStr ''first'')] provider_init)))))))"
proof -
  let ?a = "[(''id'', JStr ''aaaaaaa''), (''title'', JStr ''first''), (''description'', Undefined),
         (''variant'', JStr ''default'')]"
  let ?b = "[(''id'', JStr ''bbbbbbb''), (''title'', JStr ''second''), (''description'', Undefined),
         (''variant'', JStr ''default'')]"
  let ?st = "snd (toast ''bbbbbbb'' [(''title'', JStr ''second'')]
            (run_timers 1000 (snd (toast ''aaaaaaa'' [(''title'', JStr ''first'')] provider_init))))"
  have ts: "toasts ?st = [?a, ?b]" by (simp add: toast_eval)
  have tm: "timers ?st = [(3000, ''aaaaaaa''), (4000, ''bbbbbbb'')]" by (simp add: toast_eval)
  have h1: "distinct (map (\<lambda>m. get_prop m ''id'') (toasts ?st))"
    by (simp add: ts get_prop_def)
  have h2: "filter (\<lambda>(d, i). d \<le> 3000) (timers ?st) = [(3000, ''aaaaaaa'')]"
    by (simp add: tm)
  have h3: "?a \<in> set (toasts ?st)" by (simp add: ts)
  have h4: "get_prop ?a ''id'' = JStr ''aaaaaaa''" by (simp add: get_prop_def)
  have h5: "(4000, ''bbbbbbb'') \<in> set (timers ?st)" by (simp add: tm)
  have h6: "(4000, ''bbbbbbb'') \<noteq> (3000::nat, ''aaaaaaa'')" by simp
  have hyp: "distinct (map (\<lambda>m. get_prop m ''id'') (toasts ?st))
      \<and> filter (\<lambda>(d, i). d \<le> 3000) (timers ?st) = [(3000, ''aaaaaaa'')]
      \<and> ?a \<in> set (toasts ?st) \<and> get_prop ?a ''id'' = JStr ''aaaaaaa''"
    using h1 h2 h3 h4 by (intro conjI)
  note t = toast_expiry_order [where rid = "''ccccccc''" and args = "[]" and st = ?st
      and t = 3000 and due = 3000 and i = "''aaaaaaa''" and n = ?a]
  note imp = t [THEN conjunct2, THEN conjunct2, THEN conjunct2, THEN conjunct2, THEN conjunct1]
  note r = mp [OF imp hyp]
  have a0: "toasts (run_timers 3000 ?st) = remove1 ?a (toasts ?st)"
    by (rule r [THEN conjunct1])
  have a: "toasts (run_timers 3000 ?st) = [?b]"
    unfolding a0 ts by simp
  have b: "(4000, ''bbbbbbb'') \<in> set (timers (run_timers 3000 ?st))"
    using r [THEN conjunct2, rule_format, OF h5 h6] .
  show ?thesis using a b by (rule conjI)
qed

text \<open>
  C8 (as amended). A notification created by \<open>toast\<close> is an object with the
  properties \<open>id\<close>, \<open>title\<close>, \<open>description\<close> and \<open>variant\<close>, in this order, and
  no others: it has no \<open>createdAt\<close>. The id is the generated string, title and
  description are the caller's, and the variant is the caller's, \<open>default\<close> when
  omitted. Its severity is one of normal and alert: alert exactly for the variant
  \<open>destructive\<close>.
\<close>

theorem toast_fields:
  assumes "n = last (toasts (snd (toast rid args st)))"
  shows "map fst n = [''id'', ''title'', ''description'', ''variant'']
    \<and> get_prop n ''id'' = JStr rid
    \<and> get_prop n ''title'' = get_prop args ''title''
    \<and> get_prop n ''description'' = get_prop args ''description''
    \<and> get_prop n ''variant'' = (if get_prop args ''variant'' = Undefined then JStr ''default''
                                 else get_prop args ''variant'')
    \<and> toast_severity n
        = (if get_prop args ''variant'' = JStr ''destructive'' then Alert else Normal)
    \<and> toast_severity n \<in> {Normal, Alert}
    \<and> get_prop n ''createdAt'' = Undefined"
proof -
  have n: "n = [(''id'', JStr rid), (''title'', get_prop args ''title''),
                (''description'', get_prop args ''description''),
                (''variant'', if get_prop args ''variant'' = Undefined then JStr ''default''
                              else get_prop args ''variant'')]"
    by (simp add: assms toasts_toast)
  have a: "map fst n = [''id'', ''title'', ''description'', ''variant'']" by (simp add: n)
  have b: "get_prop n ''id'' = JStr rid" by (simp add: n get_prop_def)
  have c: "get_prop n ''title'' = get_prop args ''title''" by (simp add: n get_prop_def)
  have d: "get_prop n ''description'' = get_prop args ''description''"
    by (simp add: n get_prop_def)
  have e: "get_prop n ''variant'' = (if get_prop args ''variant'' = Undefined then JStr ''default''
                                 else get_prop args ''variant'')"
    by (simp add: n get_prop_def)
  have f: "toast_severity n
        = (if get_prop args ''variant'' = JStr ''destructive'' then Alert else Normal)"
    unfolding toast_severity_def e by simp
  have g: "toast_severity n \<in> {Normal, Alert}"
    by (cases "toast_severity n") simp_all
  have h: "get_prop n ''createdAt'' = Undefined" by (simp add: n get_prop_def)
  from a b c d e f g h show ?thesis by (intro conjI)
qed

theorem toast_fields_witness:
  "get_prop (last (toasts (snd (toast ''k3j9x2a''
       [(''title'', JStr ''No Pattern Detected''),
        (''description'', JStr ''Finished analyzing TSLA.''),
        (''variant'', JStr ''destructive'')] provider_init)))) ''id'' = JStr ''k3j9x2a''
   \<and> toast_severity (last (toasts (snd (toast ''k3j9x2a''
       [(''title'', JStr ''No Pattern Detected''),
        (''description'', JStr ''Finished analyzing TSLA.''),
        (''variant'', JStr ''destructive'')] provider_init)))) = Alert
   \<and> toast_severity (last (toasts (snd (toast ''k3j9x2b''
       [(''title'', JStr ''Cup & Handle Pattern Detected''),
        (''description'', JStr ''Finished analyzing TSLA.'')] provider_init)))) = Normal"
proof -
  let ?args = "[(''title'', JStr ''No Pattern Detected''),
        (''description'', JStr ''Finished analyzing TSLA.''),
        (''variant'', JStr ''destructive'')]"
  let ?args2 = "[(''title'', JStr ''Cup & Handle Pattern Detected''),
        (''description'', JStr ''Finished analyzing TSLA.'')]"
  note t = toast_fields [OF refl, of "''k3j9x2a''" ?args provider_init]
  note t2 = toast_fields [OF refl, of "''k3j9x2b''" ?args2 provider_init]
  have v: "get_prop ?args ''variant'' = JStr ''destructive''" by (simp add: get_prop_def)
  have v2: "get_prop ?args2 ''variant'' = Undefined" by (simp add: get_prop_def)
  have a: "get_prop (last (toasts (snd (toast ''k3j9x2a'' ?args provider_init)))) ''id''
      = JStr ''k3j9x2a''"
    by (rule t [THEN conjunct2, THEN conjunct1])
  have b0: "toast_severity (last (toasts (snd (toast ''k3j9x2a'' ?args provider_init))))
      = (if get_prop ?args ''variant'' = JStr ''destructive'' then Alert else Normal)"
    by (rule t [THEN conjunct2, THEN conjunct2, THEN conjunct2, THEN conjunct2, THEN conjunct2,
                THEN conjunct1])
  have b: "toast_severity (last (toasts (snd (toast ''k3j9x2a'' ?args provider_init)))) = Alert"
    unfolding b0 v by simp
  have c0: "toast_severity (last (toasts (snd (toast ''k3j9x2b'' ?args2 provider_init))))
      = (if get_prop ?args2 ''variant'' = JStr ''destructive'' then Alert else Normal)"
    by (rule t2 [THEN conjunct2, THEN conjunct2, THEN conjunct2, THEN conjunct2, THEN conjunct2,
                 THEN conjunct1])
  have c: "toast_severity (last (toasts (snd (toast ''k3j9x2b'' ?args2 provider_init)))) = Normal"
    unfolding c0 v2 by simp
  from a b c show ?thesis by (intro conjI)
qed

text \<open>C8 as stated fails: the created object has no \<open>createdAt\<close> property.\<close>

theorem toast_createdAt_counterexample:
  "map fst (last (toasts (snd (toast ''k3j9x2a''
       [(''title'', JStr ''No Pattern Detected''),
        (''description'', JStr ''Finished analyzing TSLA.''),
        (''variant'', JStr ''destructive'')] provider_init))))
     = [''id'', ''title'', ''description'', ''variant'']
   \<and> get_prop (last (toasts (snd (toast ''k3j9x2a''
       [(''title'', JStr ''No Pattern Detected''),
        (''description'', JStr ''Finished analyzing TSLA.''),
        (''variant'', JStr ''destructive'')] provider_init)))) ''createdAt'' = Undefined"
  by (simp add: toasts_toast get_prop_def)

section \<open>Base URL and the check button\<close>

text \<open>
  C9. With \<open>VITE_API_BASE_URL\<close> set, the health poll goes to the override, but the
  pattern check still goes to \<open>http://localhost:5000\<close>: the constant in Dashboard.jsx
  does not read the environment.
\<close>

theorem dashboard_base_url_not_overridden:
  "health_url (Some ''http://backend.example:8080'') = ''http://backend.example:8080/health''
   \<and> checkPattern_request ''AAPL''
       = [SetIsChecking ''AAPL'' True, Fetch ''http://localhost:5000/api/pattern?symbol=AAPL'']"
  by (simp add: health_url_def Layout_API_BASE_URL_def checkPattern_request_def API_BASE_URL_def)

text \<open>
  C10. While the in-flight marker of a tracked symbol is true, its card renders the
  check button with \<open>disabled\<close> true (and the label "Checking..."), so a click on the
  card starts nothing. \<open>checkPattern\<close> itself never looks at the marker: called
  directly it sends the request all the same.
\<close>

theorem check_button_disabled:
  assumes "stockResults st S = Some v" and "isChecking st S = Some True"
  shows "Dashboard_button st S = Some (StockCard_button v (JBool True))
    \<and> map_option disabled (Dashboard_button st S) = Some (JBool True)
    \<and> map_option label (Dashboard_button st S) = Some ''Checking...''
    \<and> click_check st S = []
    \<and> Fetch (API_BASE_URL @ ''/api/pattern?symbol='' @ S) \<in> set (snd (checkPattern S r))"
proof -
  have p: "isChecking_prop st S = JBool True"
    by (simp add: isChecking_prop_def assms(2))
  have a: "Dashboard_button st S = Some (StockCard_button v (JBool True))"
    by (simp add: Dashboard_button_def assms(1) p)
  have b: "map_option disabled (Dashboard_button st S) = Some (JBool True)"
    by (simp add: a StockCard_button_def)
  have c: "map_option label (Dashboard_button st S) = Some ''Checking...''"
    by (simp add: a StockCard_button_def)
  have d: "click_check st S = []"
    by (simp add: click_check_def a StockCard_button_def)
  have e: "Fetch (API_BASE_URL @ ''/api/pattern?symbol='' @ S) \<in> set (snd (checkPattern S r))"
    by (simp add: checkPattern_def checkPattern_request_def)
  from a b c d e show ?thesis by blast
qed

theorem check_button_disabled_witness:
  "map_option disabled
     (Dashboard_button (run ''a1b2c3d'' (checkPattern_request ''TSLA'') Dashboard_init) ''TSLA'')
     = Some (JBool True)
   \<and> click_check (run ''a1b2c3d'' (checkPattern_request ''TSLA'') Dashboard_init) ''TSLA'' = []"
proof -
  let ?st = "run ''a1b2c3d'' (checkPattern_request ''TSLA'') Dashboard_init"
  have h1: "stockResults ?st ''TSLA'' = Some Null"
    by (simp add: run_def checkPattern_request_def Dashboard_init_def)
  have h2: "isChecking ?st ''TSLA'' = Some True"
    by (simp add: run_def checkPattern_request_def)
  note t = check_button_disabled [OF h1 h2]
  have a: "map_option disabled (Dashboard_button ?st ''TSLA'') = Some (JBool True)"
    using t by blast
  have b: "click_check ?st ''TSLA'' = []" using t by blast
  from a b show ?thesis by blast
qed


end
